theory Spec2Isabelle
  imports Main "HOL-Library.Multiset"
begin

section \<open>Text\<close>

text \<open>
  Python strings are modelled as \<^typ>\<open>string\<close>, one \<^typ>\<open>char\<close> per ASCII character.
  The few non-ASCII characters of the program's literal messages are written as their
  UTF-8 bytes; \<open>str.lower\<close> and \<open>str.strip\<close> are modelled on ASCII text, where
  \<open>str.isspace\<close> holds of the code points 9 to 13 and 28 to 32.
\<close>

definition whitespace :: "char list" where
  "whitespace = [CHR 0x09, CHR 0x0A, CHR 0x0B, CHR 0x0C, CHR 0x0D,
                 CHR 0x1C, CHR 0x1D, CHR 0x1E, CHR 0x1F, CHR 0x20]"

definition is_space :: "char \<Rightarrow> bool" where
  "is_space c = (c \<in> set whitespace)"

definition lower_char :: "char \<Rightarrow> char" where
  "lower_char c =
     (case map_of (zip ''ABCDEFGHIJKLMNOPQRSTUVWXYZ'' ''abcdefghijklmnopqrstuvwxyz'') c of
        None \<Rightarrow> c
      | Some d \<Rightarrow> d)"

definition lower :: "string \<Rightarrow> string" where
  "lower s = map lower_char s"

definition strip :: "string \<Rightarrow> string" where
  "strip s = rev (dropWhile is_space (rev (dropWhile is_space s)))"

text \<open>\<open>str(n)\<close> of an integer: its decimal digits, with a minus sign when negative.\<close>

fun str_nat :: "nat \<Rightarrow> string" where
  "str_nat n =
     (if n < 10 then [''0123456789'' ! n]
      else str_nat (n div 10) @ [''0123456789'' ! (n mod 10)])"

declare str_nat.simps [simp del]

definition str_int :: "int \<Rightarrow> string" where
  "str_int i = (if i < 0 then CHR ''-'' # str_nat (nat (- i)) else str_nat (nat i))"

section \<open>Dataset configuration\<close>

text \<open>
  A cell of a sheet is either missing (\<open>None\<close> or \<open>NaN\<close>, the values \<open>pd.isna\<close> accepts) or
  any other scalar, which the program only ever reads through \<open>str\<close>: \<open>Val s\<close> is a value
  whose \<open>str\<close> is \<open>s\<close>.
\<close>

datatype cell = NA | Val string

text \<open>A row dictionary, as \<open>to_dict\<close> builds it: column name to cell.\<close>

type_synonym row_dict = "string \<Rightarrow> cell option"

text \<open>
  A data frame: its column labels and its rows. A row gives a cell for every label; only
  the labels listed in \<open>columns\<close> belong to the frame.
\<close>

record dataframe =
  columns :: "string list"
  records :: "(string \<Rightarrow> cell) list"

datatype error = KeyError string | ValueError

definition SHEETS :: "string \<Rightarrow> string option" where
  "SHEETS = map_of
     [(''Dogs'', ''Dog Breed Identification''),
      (''Cats'', ''Cat Breed Identification''),
      (''Horses'', ''Horse Breed Identification''),
      (''Dinosaurs'', ''Dinosaur Species Identification'')]"

definition IMAGE_FIELD :: string where
  "IMAGE_FIELD = ''Example Image''"

definition ANSWER_FIELD :: "string \<Rightarrow> string option" where
  "ANSWER_FIELD = map_of
     [(''Dogs'', ''Breed''),
      (''Cats'', ''Breed''),
      (''Horses'', ''Breed''),
      (''Dinosaurs'', ''Common Name'')]"

definition MAX_CLUES :: int where
  "MAX_CLUES = 3"

text \<open>
  The workbook is a parameter: \<open>wb sheet\<close> is the frame \<open>pd.read_excel\<close> returns for that
  sheet. Loading keeps the columns whose label does not start with \<open>Unnamed\<close>.
\<close>

definition load_and_clean_sheet :: "(string \<Rightarrow> dataframe) \<Rightarrow> string \<Rightarrow> dataframe" where
  "load_and_clean_sheet wb sheet_name =
     (let df = wb sheet_name
      in df\<lparr>columns := filter (\<lambda>c. take 7 c \<noteq> ''Unnamed'') (columns df)\<rparr>)"

definition DECKS :: "(string \<Rightarrow> dataframe) \<Rightarrow> string \<Rightarrow> dataframe option" where
  "DECKS wb category = map_option (load_and_clean_sheet wb) (SHEETS category)"

section \<open>Helper utilities\<close>

record msg =
  role :: string
  content :: string

definition as_msg :: "string \<Rightarrow> string \<Rightarrow> msg" where
  "as_msg r c = \<lparr>role = r, content = c\<rparr>"

definition safe_str :: "cell \<Rightarrow> string" where
  "safe_str x = (case x of NA \<Rightarrow> [] | Val s \<Rightarrow> strip s)"

text \<open>\<open>d.get(k, default)\<close> of a dictionary.\<close>

definition dict_get :: "('k \<Rightarrow> 'v option) \<Rightarrow> 'k \<Rightarrow> 'v \<Rightarrow> 'v" where
  "dict_get d k dflt = (case d k of None \<Rightarrow> dflt | Some v \<Rightarrow> v)"

text \<open>\<open>Series.to_dict\<close> of a row of a frame with the given columns.\<close>

definition to_dict :: "string list \<Rightarrow> (string \<Rightarrow> cell) \<Rightarrow> row_dict" where
  "to_dict cols r = (\<lambda>k. if k \<in> set cols then Some (r k) else None)"

definition get_example_image :: "row_dict \<Rightarrow> string option" where
  "get_example_image r =
     (let url = safe_str (dict_get r IMAGE_FIELD (Val []))
      in if url = [] then None else Some url)"

section \<open>Game state\<close>

text \<open>
  The state is a dictionary with string keys; a key that is absent is \<open>None\<close>. The empty
  dictionary, with which the session begins, has every key absent. (The handlers treat
  Python's \<open>None\<close> in place of the state like the empty dictionary.)
\<close>

record state =
  category :: "string option"
  row :: "row_dict option"
  answer :: "string option"
  options :: "string list option"
  clue_index :: "int option"
  round_over :: "bool option"
  score :: "int option"
  streak :: "int option"
  img_url :: "string option option"

definition empty_state :: state where
  "empty_state = \<lparr>category = None, row = None, answer = None, options = None,
     clue_index = None, round_over = None, score = None, streak = None, img_url = None\<rparr>"

section \<open>Composite clue builder\<close>

definition clue_unavailable :: string where
  "clue_unavailable = ''Clue information unavailable''"

definition build_composite_clue :: "state \<Rightarrow> int \<Rightarrow> error + string" where
  "build_composite_clue st clue_number =
     (case category st of
        None \<Rightarrow> Inl (KeyError ''category'')
      | Some cat \<Rightarrow>
     (case row st of
        None \<Rightarrow> Inl (KeyError ''row'')
      | Some r \<Rightarrow> Inr
       (if cat = ''Dogs'' then
          (if clue_number = 1 then
             (let country = safe_str (dict_get r ''Country'' (Val ''unknown''));
                  continent = safe_str (dict_get r ''Continent'' (Val ''unknown''));
                  creation = safe_str (dict_get r ''Creation Time'' (Val ''unknown time''));
                  use = safe_str (dict_get r ''Use'' (Val ''various purposes''))
              in ''**Clue 1:** This species was bred in '' @ country @ '', '' @ continent
                 @ '' during the '' @ creation @ '' for use(s) like '' @ use)
           else if clue_number = 2 then
             (let color = safe_str (dict_get r ''Color'' (Val ''various colors''))
              in ''**Clue 2:** This species is often found in colors: '' @ color)
           else if clue_number = 3 then
             (let personality = safe_str (dict_get r ''Personality Traits'' (Val ''varied traits''))
              in ''**Clue 3:** Personality traits associated with the species are ''
                 @ personality)
           else clue_unavailable)
        else if cat = ''Cats'' then
          (if clue_number = 1 then
             (let country = safe_str (dict_get r ''Country'' (Val ''unknown''));
                  continent = safe_str (dict_get r ''Continent'' (Val ''unknown''));
                  history = safe_str (dict_get r ''History'' (Val ''unknown history''))
              in ''**Clue 1:** This species was bred in '' @ country @ '', '' @ continent
                 @ '' and a tidbit of its history: '' @ history)
           else if clue_number = 2 then
             (let color = safe_str (dict_get r ''Color'' (Val ''various colors''))
              in ''**Clue 2:** This species is often found in colors: '' @ color)
           else if clue_number = 3 then
             (let personality = safe_str (dict_get r ''Personality'' (Val ''varied traits''))
              in ''**Clue 3:** Personality traits associated with the species are ''
                 @ personality)
           else clue_unavailable)
        else if cat = ''Horses'' then
          (if clue_number = 1 then
             (let country = safe_str (dict_get r ''Country'' (Val ''unknown''));
                  continent = safe_str (dict_get r ''Continent'' (Val ''unknown''));
                  creation = safe_str (dict_get r ''Creation'' (Val ''unknown time''));
                  uses = safe_str (dict_get r ''Uses'' (Val ''various uses''))
              in ''**Clue 1:** This species was bred in '' @ country @ '', '' @ continent
                 @ '' around '' @ creation @ ''. Current uses include '' @ uses)
           else if clue_number = 2 then
             (let color = safe_str (dict_get r ''Color'' (Val ''various colors''));
                  weight = safe_str (dict_get r ''Weight'' (Val ''unknown weight''));
                  height = safe_str (dict_get r ''Height'' (Val ''unknown height''))
              in ''**Clue 2:** This species is often found in color(s): '' @ color
                 @ '', and typical weight ranges are '' @ weight
                 @ '' & height ranges are '' @ height)
           else if clue_number = 3 then
             (let features = safe_str (dict_get r ''Distinguishing Features'' (Val ''varied features''))
              in ''**Clue 3:** Distinguishing features associated with this species are: ''
                 @ features)
           else clue_unavailable)
        else if cat = ''Dinosaurs'' then
          (if clue_number = 1 then
             (let locations = safe_str (dict_get r ''Locations Found'' (Val ''unknown locations''));
                  eating = safe_str (dict_get r ''Eating Habits'' (Val ''unknown diet''))
              in ''**Clue 1:** This species was found in '' @ locations @ '' and is a ''
                 @ eating)
           else if clue_number = 2 then
             (let size = safe_str (dict_get r ''Rough Size'' (Val ''unknown size''));
                  clade = safe_str (dict_get r ''Clade'' (Val ''unknown clade''))
              in ''**Clue 2:** This species has size of roughly '' @ size
                 @ '' and in the Clade '' @ clade)
           else if clue_number = 3 then
             (let social = safe_str (dict_get r ''Social Behavior'' (Val ''unknown behavior''))
              in ''**Clue 3:** Social behaviors associated are: '' @ social)
           else clue_unavailable)
        else clue_unavailable)))"

section \<open>Random draws\<close>

text \<open>
  The random number generator is an input of the model. A round consumes three draws:
  the position \<open>df.sample(1)\<close> picks among the remaining rows, the positions
  \<open>random.sample\<close> picks among the candidates (distinct, in the order drawn), and the
  rearrangement \<open>random.shuffle\<close> applies (position \<open>i\<close> of the result holds the element
  that stood at position \<open>perm ! i\<close>). The theorems speak of the draws the generator can
  produce, which \<open>draws_ok\<close> below characterises; on any other value the functions are of
  no interest.
\<close>

record draws =
  row_pos :: nat
  sample_pos :: "nat list"
  shuffle_perm :: "nat list"

text \<open>A draw of \<open>k\<close> distinct positions out of \<open>n\<close>; a shuffle of \<open>n\<close> elements draws all \<open>n\<close>.\<close>

definition is_sample_draw :: "nat \<Rightarrow> nat \<Rightarrow> nat list \<Rightarrow> bool" where
  "is_sample_draw n k picks = (length picks = k \<and> distinct picks \<and> list_all (\<lambda>i. i < n) picks)"

section \<open>Choosing the row and the options\<close>

text \<open>\<open>df.dropna(subset=[answer_col])\<close>: the rows whose answer cell is not missing.\<close>

definition eligible_rows :: "dataframe \<Rightarrow> string \<Rightarrow> (string \<Rightarrow> cell) list" where
  "eligible_rows df answer_col = filter (\<lambda>r. r answer_col \<noteq> NA) (records df)"

definition pick_round_row :: "(string \<Rightarrow> dataframe) \<Rightarrow> string \<Rightarrow> nat \<Rightarrow> error + row_dict" where
  "pick_round_row wb cat k =
     (case DECKS wb cat of
        None \<Rightarrow> Inl (KeyError cat)
      | Some df \<Rightarrow>
     (case ANSWER_FIELD cat of
        None \<Rightarrow> Inl (KeyError cat)
      | Some answer_col \<Rightarrow>
          if answer_col \<notin> set (columns df) then Inl (KeyError answer_col)
          else
            (let rs = eligible_rows df answer_col
             in if rs = [] then Inl ValueError
                else Inr (to_dict (columns df) (rs ! k)))))"

text \<open>The two list comprehensions of \<open>make_options\<close>: the candidates for distractors.\<close>

definition answer_candidates :: "dataframe \<Rightarrow> string \<Rightarrow> string \<Rightarrow> string list" where
  "answer_candidates df answer_col correct_answer =
     (let candidates = map safe_str (filter (\<lambda>x. x \<noteq> NA) (map (\<lambda>r. r answer_col) (records df)))
      in filter (\<lambda>c. c \<noteq> [] \<and> lower c \<noteq> lower correct_answer) candidates)"

definition make_options ::
  "(string \<Rightarrow> dataframe) \<Rightarrow> string \<Rightarrow> string \<Rightarrow> int \<Rightarrow> nat list \<Rightarrow> nat list \<Rightarrow> error + string list"
where
  "make_options wb cat correct_answer n_options picks perm =
     (case DECKS wb cat of
        None \<Rightarrow> Inl (KeyError cat)
      | Some df \<Rightarrow>
     (case ANSWER_FIELD cat of
        None \<Rightarrow> Inl (KeyError cat)
      | Some answer_col \<Rightarrow>
          if answer_col \<notin> set (columns df) then Inl (KeyError answer_col)
          else
            (let candidates = answer_candidates df answer_col correct_answer;
                 k = min (n_options - 1) (int (length candidates))
             in if k < 0 then Inl ValueError
                else
                  (let distractors = map (\<lambda>i. candidates ! i) picks;
                       opts = correct_answer # distractors
                   in Inr (map (\<lambda>i. opts ! i) perm)))))"

text \<open>
  The draws a round of the category can consume: a row position among the eligible rows,
  \<open>min(3, len(candidates))\<close> distinct candidate positions, and a rearrangement of the
  options.
\<close>

definition draws_ok :: "(string \<Rightarrow> dataframe) \<Rightarrow> string \<Rightarrow> draws \<Rightarrow> bool" where
  "draws_ok wb cat dr =
     (case DECKS wb cat of
        None \<Rightarrow> False
      | Some df \<Rightarrow>
     (case ANSWER_FIELD cat of
        None \<Rightarrow> False
      | Some answer_col \<Rightarrow>
          (let rs = eligible_rows df answer_col
           in row_pos dr < length rs \<and>
              (let cands = answer_candidates df answer_col (safe_str ((rs ! row_pos dr) answer_col));
                   k = min 3 (length cands)
               in is_sample_draw (length cands) k (sample_pos dr) \<and>
                  is_sample_draw (Suc k) (Suc k) (shuffle_perm dr)))))"

section \<open>Clue progression and scoring\<close>

definition get_or :: "'a option \<Rightarrow> 'a \<Rightarrow> 'a" where
  "get_or x dflt = (case x of None \<Rightarrow> dflt | Some v \<Rightarrow> v)"

definition no_more_clues :: string where
  "no_more_clues =
     ''No more clues available. You can guess, click **Give up**, or start a **New Round**.''"

definition next_clue_text :: "state \<Rightarrow> error + (string \<times> state)" where
  "next_clue_text st =
     (let i = get_or (clue_index st) 0
      in if i \<ge> MAX_CLUES then Inr (no_more_clues, st)
         else
           (case build_composite_clue st (i + 1) of
              Inl e \<Rightarrow> Inl e
            | Inr clue \<Rightarrow> Inr (clue, st\<lparr>clue_index := Some (i + 1)\<rparr>)))"

definition points_for_clues_used :: "int \<Rightarrow> int" where
  "points_for_clues_used clues_used =
     (if clues_used \<le> 1 then 3 else if clues_used = 2 then 2 else 1)"

section \<open>Game state helpers\<close>

text \<open>Truth value of the state dictionary: it has at least one key.\<close>

definition nonempty_state :: "state \<Rightarrow> bool" where
  "nonempty_state st =
     (category st \<noteq> None \<or> row st \<noteq> None \<or> answer st \<noteq> None \<or> options st \<noteq> None \<or>
      clue_index st \<noteq> None \<or> round_over st \<noteq> None \<or> score st \<noteq> None \<or>
      streak st \<noteq> None \<or> img_url st \<noteq> None)"

definition is_game_active :: "state \<Rightarrow> bool" where
  "is_game_active st =
     (nonempty_state st \<and> category st \<noteq> None \<and> \<not> get_or (round_over st) False)"

definition ICON :: "string \<Rightarrow> string option" where
  "ICON = map_of
     [(''Dogs'', [CHR 0xF0, CHR 0x9F, CHR 0x90, CHR 0xB6]),
      (''Cats'', [CHR 0xF0, CHR 0x9F, CHR 0x90, CHR 0xB1]),
      (''Horses'', [CHR 0xF0, CHR 0x9F, CHR 0x90, CHR 0xB4]),
      (''Dinosaurs'', [CHR 0xF0, CHR 0x9F, CHR 0xA6, CHR 0x96])]"

definition build_score_text :: "state \<Rightarrow> string" where
  "build_score_text st =
     (let cat = get_or (category st) [CHR 0xE2, CHR 0x80, CHR 0x94];
          icon = dict_get ICON cat [CHR 0xF0, CHR 0x9F, CHR 0xA7, CHR 0xAD];
          sc = get_or (score st) 0;
          sk = get_or (streak st) 0
      in ''**'' @ icon @ '' '' @ cat @ ''** &nbsp;&nbsp; **'' @ [CHR 0xE2, CHR 0xAD, CHR 0x90]
         @ '' Score:** '' @ str_int sc @ '' &nbsp;&nbsp; **'' @ [CHR 0xF0, CHR 0x9F, CHR 0x94, CHR 0xA5]
         @ '' Streak:** '' @ str_int sk)"

section \<open>Event handlers\<close>

text \<open>
  A handler returns the new chat transcript and state, the score line, and the updates
  of the image, Hint, Give up and Submit widgets: \<open>gr.update()\<close> changes nothing,
  \<open>gr.update(visible=b)\<close> shows or hides. An unset chat (\<open>None\<close>) is the empty list.
  The handlers mutate the state dictionary in place and return it; the model returns
  the updated state.
\<close>

datatype update = no_update | set_visible bool

record outputs =
  out_chat :: "msg list"
  out_state :: state
  out_score :: string
  out_image :: update
  out_hint :: update
  out_giveup :: update
  out_submit :: update

text \<open>
  Of the outputs of \<open>start_round\<close> the model keeps the state, the chat, the choices and
  the score line; the image markup and the visibility flags, which are constants of the
  layout, are left out.
\<close>

record start_outputs =
  new_state :: state
  new_chat :: "msg list"
  choices :: "string list"
  score_line :: string

definition pick_category_first :: string where
  "pick_category_first = ''Pick a category and click **New Round** first.''"

definition pick_category_first_give_up :: string where
  "pick_category_first_give_up = ''Pick a category and click **Start / New Round** first.''"

definition round_already_over :: string where
  "round_already_over = ''That round is already over. Click **New Round** to play again.''"

definition choose_option_first :: string where
  "choose_option_first = ''Choose one of the options first, then click **Submit Guess**.''"

definition not_quite :: string where
  "not_quite = ''Not quite. Click **Hint** for another clue, or guess again.''"

definition blank_line :: string where
  "blank_line = [CHR 0x0A, CHR 0x0A]"

definition start_round ::
  "(string \<Rightarrow> dataframe) \<Rightarrow> string \<Rightarrow> state \<Rightarrow> draws \<Rightarrow> error + start_outputs"
where
  "start_round wb cat prev dr =
     (let prev_score = get_or (score prev) 0;
          prev_streak = get_or (streak prev) 0
      in case pick_round_row wb cat (row_pos dr) of
           Inl e \<Rightarrow> Inl e
         | Inr r \<Rightarrow>
        (case ANSWER_FIELD cat of
           None \<Rightarrow> Inl (KeyError cat)
         | Some answer_col \<Rightarrow>
        (let correct = safe_str (dict_get r answer_col (Val []))
         in case make_options wb cat correct 4 (sample_pos dr) (shuffle_perm dr) of
              Inl e \<Rightarrow> Inl e
            | Inr opts \<Rightarrow>
           (let st = \<lparr>category = Some cat, row = Some r, answer = Some correct,
                       options = Some opts, clue_index = Some 0, round_over = Some False,
                       score = Some prev_score, streak = Some prev_streak,
                       img_url = Some (get_example_image r)\<rparr>
            in case next_clue_text st of
                 Inl e \<Rightarrow> Inl e
               | Inr (clue, st') \<Rightarrow>
                   Inr \<lparr>new_state = st',
                        new_chat = [as_msg ''assistant''
                          (''Here's your first clue:'' @ blank_line @ clue @ blank_line)],
                        choices = opts,
                        score_line = build_score_text st'\<rparr>))))"

definition inactive_message :: "string \<Rightarrow> state \<Rightarrow> string" where
  "inactive_message first st =
     (if \<not> nonempty_state st \<or> category st = None then first else round_already_over)"

definition give_hint :: "msg list \<Rightarrow> state \<Rightarrow> error + (msg list \<times> state)" where
  "give_hint chat st =
     (if \<not> is_game_active st then
        Inr (chat @ [as_msg ''assistant'' (inactive_message pick_category_first st)], st)
      else
        (case next_clue_text st of
           Inl e \<Rightarrow> Inl e
         | Inr (clue, st') \<Rightarrow> Inr (chat @ [as_msg ''assistant'' clue], st')))"

definition submit_guess :: "string option \<Rightarrow> msg list \<Rightarrow> state \<Rightarrow> error + outputs" where
  "submit_guess selected chat st =
     (if \<not> is_game_active st then
        Inr \<lparr>out_chat = chat @ [as_msg ''assistant'' (inactive_message pick_category_first st)],
             out_state = st, out_score = build_score_text st,
             out_image = no_update, out_hint = no_update, out_giveup = no_update,
             out_submit = no_update\<rparr>
      else if selected = None \<or> selected = Some [] then
        Inr \<lparr>out_chat = chat @ [as_msg ''assistant'' choose_option_first],
             out_state = st, out_score = build_score_text st,
             out_image = no_update, out_hint = no_update, out_giveup = no_update,
             out_submit = no_update\<rparr>
      else
        (case answer st of
           None \<Rightarrow> Inl (KeyError ''answer'')
         | Some correct \<Rightarrow>
        (let sel = get_or selected [];
             chat1 = chat @ [as_msg ''user'' (''My guess: '' @ sel)]
         in if lower (safe_str (Val sel)) = lower (safe_str (Val correct)) then
              (let clues_used = max 1 (get_or (clue_index st) 0);
                   pts = points_for_clues_used clues_used;
                   st1 = st\<lparr>score := Some (get_or (score st) 0 + pts)\<rparr>;
                   st2 = st1\<lparr>streak := Some (get_or (streak st1) 0 + 1)\<rparr>;
                   st3 = st2\<lparr>round_over := Some True\<rparr>
               in Inr \<lparr>out_chat = chat1 @ [as_msg ''assistant''
                          ([CHR 0xE2, CHR 0x9C, CHR 0x85] @ '' Correct! **'' @ correct @ ''**''
                           @ blank_line @ ''Points: **+'' @ str_int pts @ ''** (you used ''
                           @ str_int clues_used @ '' clue(s))'' @ blank_line
                           @ ''Click **New Round** to play again.'')],
                       out_state = st3, out_score = build_score_text st3,
                       out_image = set_visible True, out_hint = set_visible False,
                       out_giveup = set_visible False, out_submit = no_update\<rparr>)
            else
              (let st1 = st\<lparr>streak := Some 0\<rparr>
               in Inr \<lparr>out_chat = chat1 @ [as_msg ''assistant'' not_quite],
                       out_state = st1, out_score = build_score_text st1,
                       out_image = no_update, out_hint = no_update, out_giveup = no_update,
                       out_submit = no_update\<rparr>))))"

definition give_up :: "msg list \<Rightarrow> state \<Rightarrow> error + outputs" where
  "give_up chat st =
     (if \<not> is_game_active st then
        Inr \<lparr>out_chat = chat @ [as_msg ''assistant''
               (inactive_message pick_category_first_give_up st)],
             out_state = st, out_score = build_score_text st,
             out_image = no_update, out_hint = no_update, out_giveup = no_update,
             out_submit = no_update\<rparr>
      else
        (let st1 = st\<lparr>round_over := Some True\<rparr>;
             st2 = st1\<lparr>streak := Some 0\<rparr>
         in case answer st2 of
              None \<Rightarrow> Inl (KeyError ''answer'')
            | Some a \<Rightarrow>
                Inr \<lparr>out_chat = chat @ [as_msg ''assistant''
                       (''All good '' @ [CHR 0xE2, CHR 0x80, CHR 0x94] @ '' the answer was **''
                        @ a @ ''**.'' @ blank_line @ ''Click **New Round** when you're ready.'')],
                     out_state = st2, out_score = build_score_text st2,
                     out_image = set_visible True, out_hint = set_visible False,
                     out_giveup = set_visible False, out_submit = no_update\<rparr>))"

text \<open>
  A play within one round: the actions of the player after \<open>start_round\<close>, run in order on
  the chat and the state, stopping at the first error.
\<close>

datatype action = Hint | Guess "string option" | GiveUp

definition step :: "action \<Rightarrow> msg list \<times> state \<Rightarrow> error + (msg list \<times> state)" where
  "step a cs =
     (case a of
        Hint \<Rightarrow> give_hint (fst cs) (snd cs)
      | Guess selected \<Rightarrow>
          (case submit_guess selected (fst cs) (snd cs) of
             Inl e \<Rightarrow> Inl e
           | Inr out \<Rightarrow> Inr (out_chat out, out_state out))
      | GiveUp \<Rightarrow>
          (case give_up (fst cs) (snd cs) of
             Inl e \<Rightarrow> Inl e
           | Inr out \<Rightarrow> Inr (out_chat out, out_state out)))"

fun play :: "action list \<Rightarrow> msg list \<times> state \<Rightarrow> error + (msg list \<times> state)" where
  "play [] cs = Inr cs"
| "play (a # as) cs = (case step a cs of Inl e \<Rightarrow> Inl e | Inr cs' \<Rightarrow> play as cs')"

section \<open>Example data\<close>

text \<open>
  A small workbook on which the theorems below are instantiated: a Dogs sheet with a
  column to drop, a breed that occurs twice, a missing colour, a breed cell that holds
  only a space and a row without breed. The other sheets are empty.
\<close>

definition example_dogs :: dataframe where
  "example_dogs =
     \<lparr>columns = [''Breed'', ''Color'', ''Unnamed: 2''],
      records =
        [(\<lambda>c. NA)(''Breed'' := Val ''Beagle''),
         (\<lambda>c. NA)(''Breed'' := Val ''Poodle'', ''Color'' := Val ''White''),
         (\<lambda>c. NA)(''Breed'' := Val ''Poodle'', ''Color'' := Val ''Black''),
         (\<lambda>c. NA)(''Breed'' := Val '' '', ''Color'' := Val ''Grey''),
         (\<lambda>c. NA)(''Color'' := Val ''Brown'')]\<rparr>"

definition example_workbook :: "string \<Rightarrow> dataframe" where
  "example_workbook sheet =
     (if sheet = ''Dog Breed Identification'' then example_dogs
      else \<lparr>columns = [], records = []\<rparr>)"

text \<open>Draws that pick the Beagle, both Poodles as distractors, and a rotation.\<close>

definition example_draws :: draws where
  "example_draws = \<lparr>row_pos = 0, sample_pos = [1, 0], shuffle_perm = [2, 0, 1]\<rparr>"

text \<open>Draws that pick the row whose breed cell is a single space.\<close>

definition blank_draws :: draws where
  "blank_draws = \<lparr>row_pos = 3, sample_pos = [0, 2, 1], shuffle_perm = [0, 1, 2, 3]\<rparr>"

text \<open>The round \<open>start_round\<close> returns on the example workbook with the example draws.\<close>

definition example_round :: state where
  "example_round =
     \<lparr>category = Some ''Dogs'',
      row = Some (to_dict [''Breed'', ''Color''] ((\<lambda>c. NA)(''Breed'' := Val ''Beagle''))),
      answer = Some ''Beagle'',
      options = Some [''Poodle'', ''Beagle'', ''Poodle''],
      clue_index = Some 1,
      round_over = Some False,
      score = Some 0,
      streak = Some 0,
      img_url = Some None\<rparr>"

text \<open>The round \<open>start_round\<close> returns on the example workbook with the blank draws.\<close>

definition blank_round :: state where
  "blank_round =
     \<lparr>category = Some ''Dogs'',
      row = Some (to_dict [''Breed'', ''Color'']
              ((\<lambda>c. NA)(''Breed'' := Val '' '', ''Color'' := Val ''Grey''))),
      answer = Some [],
      options = Some [[], ''Beagle'', ''Poodle'', ''Poodle''],
      clue_index = Some 1,
      round_over = Some False,
      score = Some 0,
      streak = Some 0,
      img_url = Some None\<rparr>"

section \<open>Facts about text\<close>

lemma is_space_lower_char: "is_space (lower_char c) = is_space c"
proof (cases "map_of (zip ''ABCDEFGHIJKLMNOPQRSTUVWXYZ'' ''abcdefghijklmnopqrstuvwxyz'') c")
  case None
  then show ?thesis by (simp add: lower_char_def)
next
  case (Some d)
  then have "(c, d) \<in> set (zip ''ABCDEFGHIJKLMNOPQRSTUVWXYZ'' ''abcdefghijklmnopqrstuvwxyz'')"
    by (rule map_of_SomeD)
  then have "\<not> is_space c \<and> \<not> is_space d"
    by (auto simp: is_space_def whitespace_def)
  with Some show ?thesis by (simp add: lower_char_def)
qed

lemma dropWhile_space_lower: "dropWhile is_space (lower s) = lower (dropWhile is_space s)"
  by (induction s) (simp_all add: lower_def is_space_lower_char)

lemma rev_lower: "rev (lower s) = lower (rev s)"
  by (simp add: lower_def rev_map)

lemma strip_lower: "strip (lower s) = lower (strip s)"
  by (simp add: strip_def dropWhile_space_lower rev_lower)

lemma lower_eq_strip: "lower s = lower a \<Longrightarrow> lower (strip s) = lower (strip a)"
  by (metis strip_lower)

lemma dropWhile_all_append:
  "\<forall>x\<in>set ws. P x \<Longrightarrow> dropWhile P (ws @ b) = dropWhile P b"
  by (induction ws) simp_all

lemma strip_padded:
  assumes "\<forall>c\<in>set ws1. is_space c" and "\<forall>c\<in>set ws2. is_space c"
  shows "strip (ws1 @ a @ ws2) = strip a"
proof (cases "\<forall>c\<in>set a. is_space c")
  case True
  with assms have "\<forall>c\<in>set (ws1 @ a @ ws2). is_space c" by auto
  then have "dropWhile is_space (ws1 @ a @ ws2) = []"
    by (simp only: dropWhile_eq_Nil_conv)
  moreover from True have "dropWhile is_space a = []"
    by (simp only: dropWhile_eq_Nil_conv)
  ultimately show ?thesis unfolding strip_def by (simp only: rev.simps dropWhile.simps)
next
  case False
  then obtain x where x: "x \<in> set a" "\<not> is_space x" by blast
  have "dropWhile is_space (ws1 @ a @ ws2) = dropWhile is_space (a @ ws2)"
    using assms(1) by (rule dropWhile_all_append)
  also have "\<dots> = dropWhile is_space a @ ws2"
    using x by (simp add: dropWhile_append1)
  finally have "rev (dropWhile is_space (ws1 @ a @ ws2)) = rev ws2 @ rev (dropWhile is_space a)"
    by simp
  moreover have "dropWhile is_space (rev ws2 @ rev (dropWhile is_space a))
               = dropWhile is_space (rev (dropWhile is_space a))"
    using assms(2) by (intro dropWhile_all_append) simp
  ultimately show ?thesis by (simp add: strip_def)
qed

lemma strip_nonempty:
  assumes "\<exists>c\<in>set s. \<not> is_space c"
  shows "strip s \<noteq> []"
proof -
  let ?t = "dropWhile is_space s"
  from assms have ne: "?t \<noteq> []" by (simp add: dropWhile_eq_Nil_conv)
  then have "\<not> is_space (hd ?t)" by (rule hd_dropWhile)
  moreover from ne have "hd ?t \<in> set (rev ?t)" by simp
  ultimately have "dropWhile is_space (rev ?t) \<noteq> []"
    by (auto simp only: dropWhile_eq_Nil_conv)
  then show ?thesis by (simp add: strip_def)
qed

lemma lower_Nil: "lower [] = []"
  by (simp add: lower_def)

section \<open>Facts about the clue builder and the handlers\<close>

lemma get_or_simps [simp]: "get_or (Some v) d = v" "get_or None d = d"
  by (simp_all add: get_or_def)

lemma active_iff: "is_game_active st \<longleftrightarrow> category st \<noteq> None \<and> round_over st \<noteq> Some True"
  by (cases "round_over st") (auto simp: is_game_active_def nonempty_state_def get_or_def)

lemma build_composite_clue_cong:
  "category st' = category st \<Longrightarrow> row st' = row st
     \<Longrightarrow> build_composite_clue st' n = build_composite_clue st n"
  by (simp only: build_composite_clue_def)

lemma build_composite_clue_total:
  "category st = Some cat \<Longrightarrow> row st = Some r \<Longrightarrow> \<exists>c. build_composite_clue st n = Inr c"
  by (simp only: build_composite_clue_def option.case) blast

lemma next_clue_text_reveal:
  assumes "get_or (clue_index st) 0 = i" and "i < 3" and "build_composite_clue st (i + 1) = Inr c"
  shows "next_clue_text st = Inr (c, st\<lparr>clue_index := Some (i + 1)\<rparr>)"
  using assms by (simp add: next_clue_text_def MAX_CLUES_def)

lemma next_clue_text_exhausted:
  assumes "3 \<le> get_or (clue_index st) 0"
  shows "next_clue_text st = Inr (no_more_clues, st)"
  using assms by (simp add: next_clue_text_def MAX_CLUES_def)


text \<open>
  Every action keeps the category, the row and the answer of the round, never lowers
  the clue counter, keeps it within three when it was, and never reopens a round.
\<close>

lemma give_hint_inv:
  assumes "row st \<noteq> None"
  shows "\<exists>chat' st'. give_hint chat st = Inr (chat', st')
           \<and> category st' = category st \<and> row st' = row st \<and> answer st' = answer st
           \<and> round_over st' = round_over st
           \<and> get_or (clue_index st) 0 \<le> get_or (clue_index st') 0
           \<and> (get_or (clue_index st) 0 \<le> 3 \<longrightarrow> get_or (clue_index st') 0 \<le> 3)"
proof (cases "is_game_active st \<and> get_or (clue_index st) 0 < 3")
  case True
  then obtain cat where "category st = Some cat" by (auto simp: active_iff)
  with assms obtain c where "build_composite_clue st (get_or (clue_index st) 0 + 1) = Inr c"
    using build_composite_clue_total by (metis not_None_eq)
  with True show ?thesis
    by (simp add: give_hint_def next_clue_text_reveal [of st "get_or (clue_index st) 0" c])
next
  case False
  then show ?thesis
    by (auto simp: give_hint_def next_clue_text_exhausted)
qed

lemma submit_guess_inv:
  assumes "answer st \<noteq> None"
  shows "\<exists>out. submit_guess selected chat st = Inr out
           \<and> category (out_state out) = category st \<and> row (out_state out) = row st
           \<and> answer (out_state out) = answer st
           \<and> clue_index (out_state out) = clue_index st
           \<and> (round_over st = Some True \<longrightarrow> round_over (out_state out) = Some True)"
  using assms by (auto simp: submit_guess_def Let_def)

lemma give_up_inv:
  assumes "answer st \<noteq> None"
  shows "\<exists>out. give_up chat st = Inr out
           \<and> category (out_state out) = category st \<and> row (out_state out) = row st
           \<and> answer (out_state out) = answer st
           \<and> clue_index (out_state out) = clue_index st
           \<and> (round_over st = Some True \<longrightarrow> round_over (out_state out) = Some True)"
  using assms by (auto simp: give_up_def Let_def active_iff)

lemma step_inv:
  assumes "row st \<noteq> None" and "answer st \<noteq> None"
  shows "\<exists>chat' st'. step a (chat, st) = Inr (chat', st')
           \<and> category st' = category st \<and> row st' = row st \<and> answer st' = answer st
           \<and> get_or (clue_index st) 0 \<le> get_or (clue_index st') 0
           \<and> (get_or (clue_index st) 0 \<le> 3 \<longrightarrow> get_or (clue_index st') 0 \<le> 3)
           \<and> (round_over st = Some True \<longrightarrow> round_over st' = Some True)"
proof (cases a)
  case Hint
  from give_hint_inv [OF assms(1), of chat] Hint show ?thesis
    by (auto simp: step_def)
next
  case (Guess selected)
  from submit_guess_inv [OF assms(2), of selected chat] Guess show ?thesis
    by (auto simp: step_def)
next
  case GiveUp
  from give_up_inv [OF assms(2), of chat] GiveUp show ?thesis
    by (auto simp: step_def)
qed

lemma play_inv:
  assumes "row st \<noteq> None" and "answer st \<noteq> None"
  shows "\<exists>chat' st'. play acts (chat, st) = Inr (chat', st')
           \<and> category st' = category st \<and> row st' = row st \<and> answer st' = answer st
           \<and> get_or (clue_index st) 0 \<le> get_or (clue_index st') 0
           \<and> (get_or (clue_index st) 0 \<le> 3 \<longrightarrow> get_or (clue_index st') 0 \<le> 3)
           \<and> (round_over st = Some True \<longrightarrow> round_over st' = Some True)"
  using assms
proof (induction acts arbitrary: chat st)
  case Nil
  then show ?case by simp
next
  case (Cons a acts)
  from step_inv [OF Cons.prems, of a chat] obtain chat1 st1 where
    s: "step a (chat, st) = Inr (chat1, st1)"
      "category st1 = category st" "row st1 = row st" "answer st1 = answer st"
      "get_or (clue_index st) 0 \<le> get_or (clue_index st1) 0"
      "get_or (clue_index st) 0 \<le> 3 \<longrightarrow> get_or (clue_index st1) 0 \<le> 3"
      "round_over st = Some True \<longrightarrow> round_over st1 = Some True"
    by blast
  from Cons.prems s have "row st1 \<noteq> None" "answer st1 \<noteq> None" by simp_all
  from Cons.IH [OF this, of chat1] obtain chat2 st2 where
    p: "play acts (chat1, st1) = Inr (chat2, st2)"
      "category st2 = category st1" "row st2 = row st1" "answer st2 = answer st1"
      "get_or (clue_index st1) 0 \<le> get_or (clue_index st2) 0"
      "get_or (clue_index st1) 0 \<le> 3 \<longrightarrow> get_or (clue_index st2) 0 \<le> 3"
      "round_over st1 = Some True \<longrightarrow> round_over st2 = Some True"
    by blast
  from s p show ?case by simp
qed

lemma play_append:
  "play (as1 @ as2) cs = (case play as1 cs of Inl e \<Rightarrow> Inl e | Inr cs1 \<Rightarrow> play as2 cs1)"
  by (induction as1 arbitrary: cs) (simp_all split: sum.splits)

section \<open>Facts about the draws\<close>











section \<open>The example round\<close>

lemma DECKS_example: "DECKS example_workbook ''Dogs'' = Some (example_dogs\<lparr>columns := [''Breed'', ''Color'']\<rparr>)"
  by (simp add: DECKS_def SHEETS_def load_and_clean_sheet_def example_workbook_def example_dogs_def)

lemma ANSWER_FIELD_Dogs: "ANSWER_FIELD ''Dogs'' = Some ''Breed''"
  by (simp add: ANSWER_FIELD_def)

lemma strip_ex: "strip ''Beagle'' = ''Beagle''" "strip ''Poodle'' = ''Poodle''" "strip '' '' = []" "strip [] = []"
  by (simp_all add: strip_def is_space_def whitespace_def)

lemma lower_ex: "lower ''Beagle'' = ''beagle''" "lower ''Poodle'' = ''poodle''"
  by (simp_all add: lower_def lower_char_def)

lemma eligible_example:
  "eligible_rows (example_dogs\<lparr>columns := [''Breed'', ''Color'']\<rparr>) ''Breed''
     = [(\<lambda>c. NA)(''Breed'' := Val ''Beagle''),
        (\<lambda>c. NA)(''Breed'' := Val ''Poodle'', ''Color'' := Val ''White''),
        (\<lambda>c. NA)(''Breed'' := Val ''Poodle'', ''Color'' := Val ''Black''),
        (\<lambda>c. NA)(''Breed'' := Val '' '', ''Color'' := Val ''Grey'')]"
  by (simp add: eligible_rows_def example_dogs_def)

lemma candidates_example:
  "answer_candidates (example_dogs\<lparr>columns := [''Breed'', ''Color'']\<rparr>) ''Breed'' ''Beagle''
     = [''Poodle'', ''Poodle'']"
  "answer_candidates (example_dogs\<lparr>columns := [''Breed'', ''Color'']\<rparr>) ''Breed'' []
     = [''Beagle'', ''Poodle'', ''Poodle'']"
  by (simp_all add: answer_candidates_def example_dogs_def safe_str_def strip_ex lower_ex lower_Nil)


lemma draws_ok_blank: "draws_ok example_workbook ''Dogs'' blank_draws"
  by (simp add: draws_ok_def DECKS_example ANSWER_FIELD_Dogs eligible_example candidates_example
      safe_str_def strip_ex blank_draws_def is_sample_draw_def Let_def)

lemma start_example:
  "map_sum id new_state (start_round example_workbook ''Dogs'' empty_state example_draws) = Inr example_round"
  by (simp add: start_round_def pick_round_row_def make_options_def DECKS_example ANSWER_FIELD_def
      eligible_rows_def answer_candidates_def example_dogs_def example_draws_def empty_state_def
      example_round_def safe_str_def dict_get_def to_dict_def strip_ex lower_ex get_example_image_def
      IMAGE_FIELD_def next_clue_text_def MAX_CLUES_def build_composite_clue_def Let_def)

lemma start_blank_round:
  "map_sum id new_state (start_round example_workbook ''Dogs'' empty_state blank_draws)
     = Inr blank_round"
  by (simp add: start_round_def pick_round_row_def make_options_def DECKS_example ANSWER_FIELD_def
      eligible_example candidates_example blank_draws_def empty_state_def blank_round_def
      safe_str_def dict_get_def to_dict_def strip_ex lower_ex get_example_image_def
      IMAGE_FIELD_def next_clue_text_def MAX_CLUES_def build_composite_clue_def Let_def)

lemma active_blank: "is_game_active blank_round"
  by (simp add: active_iff blank_round_def)

lemma blank_guess_prompt:
  "submit_guess (Some []) [] blank_round
     = Inr \<lparr>out_chat = [as_msg ''assistant'' choose_option_first],
            out_state = blank_round, out_score = build_score_text blank_round,
            out_image = no_update, out_hint = no_update, out_giveup = no_update,
            out_submit = no_update\<rparr>"
  using active_blank by (simp add: submit_guess_def)

lemma active_example: "is_game_active (example_round\<lparr>clue_index := x\<rparr>)" "is_game_active example_round"
  by (simp_all add: active_iff example_round_def)

lemma clue_ex:
  "build_composite_clue example_round 2 = Inr ''**Clue 2:** This species is often found in colors: ''"
  "build_composite_clue example_round 3
     = Inr ''**Clue 3:** Personality traits associated with the species are varied traits''"
  by (simp_all add: build_composite_clue_def example_round_def to_dict_def dict_get_def
      safe_str_def strip_def is_space_def whitespace_def)

section \<open>The claims\<close>

subsection \<open>C1: the options of a started round\<close>




subsection \<open>C2: a correct guess\<close>

text \<open>
  Claim C2 says that on every active round a guess that equals the answer
  case-insensitively is awarded points. The handler asks for a choice when the selection
  is empty, before it compares. On the round of the example workbook whose answer is
  empty (its breed cell holds only a space) the option that equals the answer is the
  empty string: submitting it returns the prompt, the state is unchanged, no point is
  awarded and the round is not over.
\<close>

theorem empty_guess_counterexample:
  "map_sum id new_state (start_round example_workbook ''Dogs'' empty_state blank_draws)
     = Inr blank_round
   \<and> is_game_active blank_round
   \<and> answer blank_round = Some []
   \<and> options blank_round = Some [[], ''Beagle'', ''Poodle'', ''Poodle'']
   \<and> lower [] = lower ([] :: string)
   \<and> submit_guess (Some []) [] blank_round
       = Inr \<lparr>out_chat = [as_msg ''assistant'' choose_option_first],
              out_state = blank_round, out_score = build_score_text blank_round,
              out_image = no_update, out_hint = no_update, out_giveup = no_update,
              out_submit = no_update\<rparr>
   \<and> score blank_round = Some 0
   \<and> streak blank_round = Some 0
   \<and> round_over blank_round = Some False"
  using start_blank_round active_blank blank_guess_prompt
  by (simp add: blank_round_def)

text \<open>
  Claim C2, amended. On an active round, a non-empty guess that equals the answer
  case-insensitively is scored with \<open>clues_used = max(1, clue_index)\<close>: three points
  when one clue was used, two when two, one when three or more; the score grows by
  exactly these points, the streak by one, and the round is over.
\<close>

theorem correct_guess:
  assumes "is_game_active st" and "answer st = Some a" and "s \<noteq> []"
    and "lower s = lower a"
  shows "\<exists>out. submit_guess (Some s) chat st = Inr out
           \<and> (let clues_used = max 1 (get_or (clue_index st) 0);
                   points = (if clues_used = 1 then 3 else if clues_used = 2 then 2 else 1)
               in points_for_clues_used clues_used = points
                \<and> score (out_state out) = Some (get_or (score st) 0 + points)
                \<and> streak (out_state out) = Some (get_or (streak st) 0 + 1)
                \<and> round_over (out_state out) = Some True)"
proof -
  from assms(4) have "lower (strip s) = lower (strip a)" by (rule lower_eq_strip)
  with assms(1-3) show ?thesis
    by (simp add: submit_guess_def safe_str_def Let_def points_for_clues_used_def max_def)
qed

theorem correct_guess_witness:
  "is_game_active example_round \<and> answer example_round = Some ''Beagle''
   \<and> lower ''beagle'' = lower ''Beagle''
   \<and> (\<exists>out. submit_guess (Some ''beagle'') [] example_round = Inr out
         \<and> score (out_state out) = Some 3
         \<and> streak (out_state out) = Some 1
         \<and> round_over (out_state out) = Some True)"
proof -
  have l: "lower ''beagle'' = lower ''Beagle''" by (simp add: lower_def lower_char_def)
  have a: "answer example_round = Some ''Beagle''" by (simp add: example_round_def)
  have v: "max 1 (get_or (clue_index example_round) 0) = 1"
    "get_or (score example_round) 0 = 0" "get_or (streak example_round) 0 = 0"
    by (simp_all add: example_round_def)
  from correct_guess [OF active_example(2) a _ l, of "[]"]
  have "\<exists>out. submit_guess (Some ''beagle'') [] example_round = Inr out
         \<and> score (out_state out) = Some 3
         \<and> streak (out_state out) = Some 1
         \<and> round_over (out_state out) = Some True"
    by (auto simp: v Let_def)
  with l a active_example(2) show ?thesis by blast
qed

subsection \<open>C3: four hints in a row\<close>

text \<open>
  Claim C3 says that on an active round four hints in a row return the clues 1, 2 and 3
  and then the fixed message. \<open>start_round\<close> itself reveals the first clue, so a round
  is handed to the player with \<open>clue_index = 1\<close>: on the example round the first two
  hints return the clues 2 and 3 and already the third returns the fixed message.
\<close>

theorem hint_after_start_counterexample:
  "map_sum id new_state (start_round example_workbook ''Dogs'' empty_state example_draws)
     = Inr example_round
   \<and> give_hint [] example_round
     = Inr ([as_msg ''assistant'' ''**Clue 2:** This species is often found in colors: ''],
            example_round\<lparr>clue_index := Some 2\<rparr>)
   \<and> give_hint [] (example_round\<lparr>clue_index := Some 2\<rparr>)
     = Inr ([as_msg ''assistant''
              ''**Clue 3:** Personality traits associated with the species are varied traits''],
            example_round\<lparr>clue_index := Some 3\<rparr>)
   \<and> give_hint [] (example_round\<lparr>clue_index := Some 3\<rparr>)
     = Inr ([as_msg ''assistant'' no_more_clues], example_round\<lparr>clue_index := Some 3\<rparr>)"
proof -
  have act: "is_game_active (example_round\<lparr>clue_index := x\<rparr>)" "is_game_active example_round" for x
    by (simp_all add: active_iff example_round_def)
  have b: "build_composite_clue (example_round\<lparr>clue_index := x\<rparr>) n
             = build_composite_clue example_round n" for x n
    by (rule build_composite_clue_cong) simp_all
  have ci: "get_or (clue_index example_round) 0 = 1" by (simp add: example_round_def)
  have "give_hint [] example_round
     = Inr ([as_msg ''assistant'' ''**Clue 2:** This species is often found in colors: ''],
            example_round\<lparr>clue_index := Some 2\<rparr>)"
    using act ci clue_ex(1) next_clue_text_reveal [of example_round 1]
    by (simp add: give_hint_def)
  moreover have "give_hint [] (example_round\<lparr>clue_index := Some 2\<rparr>)
     = Inr ([as_msg ''assistant''
              ''**Clue 3:** Personality traits associated with the species are varied traits''],
            example_round\<lparr>clue_index := Some 3\<rparr>)"
    using act clue_ex(2) b next_clue_text_reveal [of "example_round\<lparr>clue_index := Some 2\<rparr>" 2]
    by (simp add: give_hint_def)
  moreover have "give_hint [] (example_round\<lparr>clue_index := Some 3\<rparr>)
     = Inr ([as_msg ''assistant'' no_more_clues], example_round\<lparr>clue_index := Some 3\<rparr>)"
    using act next_clue_text_exhausted [of "example_round\<lparr>clue_index := Some 3\<rparr>"]
    by (simp add: give_hint_def)
  ultimately show ?thesis using start_example by simp
qed

text \<open>
  Claim C3, amended. On an active round whose clue counter is 0 (the state in which
  \<open>start_round\<close> makes the first of these calls), four hints in a row return the
  composed clues 1, 2 and 3 in order, the counter growing by exactly one each time, and
  the fourth returns the fixed message with the counter at 3 and the state untouched;
  since the state is untouched, the same holds of every later hint.
\<close>

theorem four_hints_fresh_round:
  assumes "is_game_active st" and "row st = Some r" and "get_or (clue_index st) 0 = 0"
  shows "\<exists>c1 c2 c3.
           build_composite_clue st 1 = Inr c1
         \<and> build_composite_clue st 2 = Inr c2
         \<and> build_composite_clue st 3 = Inr c3
         \<and> give_hint chat st
             = Inr (chat @ [as_msg ''assistant'' c1], st\<lparr>clue_index := Some 1\<rparr>)
         \<and> give_hint chat1 (st\<lparr>clue_index := Some 1\<rparr>)
             = Inr (chat1 @ [as_msg ''assistant'' c2], st\<lparr>clue_index := Some 2\<rparr>)
         \<and> give_hint chat2 (st\<lparr>clue_index := Some 2\<rparr>)
             = Inr (chat2 @ [as_msg ''assistant'' c3], st\<lparr>clue_index := Some 3\<rparr>)
         \<and> give_hint chat3 (st\<lparr>clue_index := Some 3\<rparr>)
             = Inr (chat3 @ [as_msg ''assistant'' no_more_clues], st\<lparr>clue_index := Some 3\<rparr>)"
proof -
  from assms(1) obtain cat where cat: "category st = Some cat" and ro: "round_over st \<noteq> Some True"
    by (auto simp: active_iff)
  obtain c1 c2 c3 where c: "build_composite_clue st 1 = Inr c1"
      "build_composite_clue st 2 = Inr c2" "build_composite_clue st 3 = Inr c3"
    using build_composite_clue_total [OF cat assms(2)] by metis
  have act: "is_game_active (st\<lparr>clue_index := x\<rparr>)" for x
    using cat ro by (simp add: active_iff)
  have b: "build_composite_clue (st\<lparr>clue_index := x\<rparr>) n = build_composite_clue st n" for x n
    by (rule build_composite_clue_cong) simp_all
  have h0: "give_hint chat st = Inr (chat @ [as_msg ''assistant'' c1], st\<lparr>clue_index := Some 1\<rparr>)"
    using assms(1,3) c(1) next_clue_text_reveal [of st 0 c1] by (simp add: give_hint_def)
  have h1: "give_hint chat1 (st\<lparr>clue_index := Some 1\<rparr>)
             = Inr (chat1 @ [as_msg ''assistant'' c2], st\<lparr>clue_index := Some 2\<rparr>)"
    using act c(2) b next_clue_text_reveal [of "st\<lparr>clue_index := Some 1\<rparr>" 1 c2]
    by (simp add: give_hint_def)
  have h2: "give_hint chat2 (st\<lparr>clue_index := Some 2\<rparr>)
             = Inr (chat2 @ [as_msg ''assistant'' c3], st\<lparr>clue_index := Some 3\<rparr>)"
    using act c(3) b next_clue_text_reveal [of "st\<lparr>clue_index := Some 2\<rparr>" 2 c3]
    by (simp add: give_hint_def)
  have h3: "give_hint chat3 (st\<lparr>clue_index := Some 3\<rparr>)
             = Inr (chat3 @ [as_msg ''assistant'' no_more_clues], st\<lparr>clue_index := Some 3\<rparr>)"
    using act next_clue_text_exhausted [of "st\<lparr>clue_index := Some 3\<rparr>"]
    by (simp add: give_hint_def)
  from c h0 h1 h2 h3 show ?thesis by blast
qed

theorem four_hints_fresh_round_witness:
  "is_game_active (example_round\<lparr>clue_index := Some 0\<rparr>)
   \<and> (\<exists>c1 c2 c3.
        give_hint [] (example_round\<lparr>clue_index := Some 0\<rparr>)
          = Inr ([as_msg ''assistant'' c1], example_round\<lparr>clue_index := Some 1\<rparr>)
      \<and> give_hint [] (example_round\<lparr>clue_index := Some 1\<rparr>)
          = Inr ([as_msg ''assistant'' c2], example_round\<lparr>clue_index := Some 2\<rparr>)
      \<and> give_hint [] (example_round\<lparr>clue_index := Some 2\<rparr>)
          = Inr ([as_msg ''assistant'' c3], example_round\<lparr>clue_index := Some 3\<rparr>)
      \<and> give_hint [] (example_round\<lparr>clue_index := Some 3\<rparr>)
          = Inr ([as_msg ''assistant'' no_more_clues], example_round\<lparr>clue_index := Some 3\<rparr>))"
proof -
  have r: "row (example_round\<lparr>clue_index := Some 0\<rparr>)
             = Some (to_dict [''Breed'', ''Color''] ((\<lambda>c. NA)(''Breed'' := Val ''Beagle'')))"
    by (simp add: example_round_def)
  have c: "get_or (clue_index (example_round\<lparr>clue_index := Some 0\<rparr>)) 0 = 0" by simp
  from four_hints_fresh_round [OF active_example(1) r c, of "[]" "[]" "[]" "[]"] active_example(1)
  show ?thesis by auto
qed

subsection \<open>C4: placeholders for missing fields\<close>

text \<open>
  Claim C4 says that a field that is missing or empty in the row is replaced by its
  placeholder and the slot is never left blank. The placeholder is the default of
  \<open>row.get\<close> and so is used only when the row has no such key; a row taken from a
  sheet has every column as a key, and a missing cell is \<open>NaN\<close>, which \<open>safe_str\<close>
  turns into the empty string. In the example round the colour of the Beagle is
  missing and the second clue ends in a blank slot instead of \<open>various colors\<close>.
\<close>

theorem missing_color_blank_slot:
  "row example_round
     = Some (to_dict [''Breed'', ''Color''] ((\<lambda>c. NA)(''Breed'' := Val ''Beagle'')))
   \<and> to_dict [''Breed'', ''Color''] ((\<lambda>c. NA)(''Breed'' := Val ''Beagle'')) ''Color'' = Some NA
   \<and> build_composite_clue example_round 2
       = Inr ''**Clue 2:** This species is often found in colors: ''"
  using clue_ex(1) by (simp add: example_round_def to_dict_def)

subsection \<open>C5: the row of a started round\<close>

text \<open>
  Claim C5 says that the row is sampled among the rows whose answer cell is neither
  missing nor empty, so that the answer of a started round is never empty.
  \<open>pick_round_row\<close> is documented to pick a row with a valid answer, and \<open>make_options\<close>
  drops the candidates whose trimmed text is empty; but \<open>pick_round_row\<close> drops only
  the missing cells. On the example workbook the row whose breed cell holds a single
  space is among the rows it samples, and the round that draws it has the empty answer.
\<close>

theorem blank_cell_empty_answer:
  "draws_ok example_workbook ''Dogs'' blank_draws
   \<and> (eligible_rows (example_dogs\<lparr>columns := [''Breed'', ''Color'']\<rparr>) ''Breed'' ! 3) ''Breed''
       = Val '' ''
   \<and> map_sum id new_state (start_round example_workbook ''Dogs'' empty_state blank_draws)
       = Inr blank_round
   \<and> answer blank_round = Some []"
  using draws_ok_blank start_blank_round by (simp add: eligible_example blank_round_def)

subsection \<open>C6: actions after the end of the round\<close>

text \<open>
  Claim C6. When \<open>round_over\<close> is true, each of hint, guess and give up returns the
  state as it was, every field unchanged, and appends exactly one guidance message to the
  chat; no widget is updated.
\<close>

theorem round_over_noop:
  assumes "round_over st = Some True"
  shows "give_hint chat st
           = Inr (chat @ [as_msg ''assistant'' (inactive_message pick_category_first st)], st)
       \<and> submit_guess selected chat st
           = Inr \<lparr>out_chat = chat @ [as_msg ''assistant'' (inactive_message pick_category_first st)],
                  out_state = st, out_score = build_score_text st,
                  out_image = no_update, out_hint = no_update, out_giveup = no_update,
                  out_submit = no_update\<rparr>
       \<and> give_up chat st
           = Inr \<lparr>out_chat = chat @ [as_msg ''assistant''
                    (inactive_message pick_category_first_give_up st)],
                  out_state = st, out_score = build_score_text st,
                  out_image = no_update, out_hint = no_update, out_giveup = no_update,
                  out_submit = no_update\<rparr>"
proof -
  from assms have "\<not> is_game_active st" by (simp add: active_iff)
  then show ?thesis by (simp add: give_hint_def submit_guess_def give_up_def)
qed

theorem round_over_noop_witness:
  "round_over (example_round\<lparr>round_over := Some True\<rparr>) = Some True
   \<and> give_hint [] (example_round\<lparr>round_over := Some True\<rparr>)
       = Inr ([as_msg ''assistant'' round_already_over], example_round\<lparr>round_over := Some True\<rparr>)
   \<and> map_sum id out_state (submit_guess (Some ''Beagle'') [] (example_round\<lparr>round_over := Some True\<rparr>))
       = Inr (example_round\<lparr>round_over := Some True\<rparr>)
   \<and> map_sum id out_state (give_up [] (example_round\<lparr>round_over := Some True\<rparr>))
       = Inr (example_round\<lparr>round_over := Some True\<rparr>)"
proof -
  have m: "inactive_message first (example_round\<lparr>round_over := Some True\<rparr>) = round_already_over"
    for first
    by (simp add: inactive_message_def nonempty_state_def example_round_def)
  from round_over_noop [of "example_round\<lparr>round_over := Some True\<rparr>" "[]" "Some ''Beagle''"]
  show ?thesis by (simp add: m)
qed

subsection \<open>C7: a wrong guess\<close>

text \<open>
  Claim C7. On an active round, a non-empty guess that does not match the answer (the
  comparison is case-insensitive, on the trimmed strings) leaves the score as it was,
  sets the streak to 0 and leaves \<open>round_over\<close> as it was, hence not true: only the
  streak changes.
\<close>

theorem wrong_guess:
  assumes "is_game_active st" and "answer st = Some a" and "s \<noteq> []"
    and "lower (strip s) \<noteq> lower (strip a)"
  shows "\<exists>out. submit_guess (Some s) chat st = Inr out
           \<and> out_state out = st\<lparr>streak := Some 0\<rparr>
           \<and> score (out_state out) = score st
           \<and> streak (out_state out) = Some 0
           \<and> round_over (out_state out) = round_over st
           \<and> round_over (out_state out) \<noteq> Some True"
  using assms by (simp add: submit_guess_def safe_str_def get_or_def active_iff Let_def)

theorem wrong_guess_witness:
  "is_game_active example_round \<and> answer example_round = Some ''Beagle''
   \<and> lower (strip ''Poodle'') \<noteq> lower (strip ''Beagle'')
   \<and> (\<exists>out. submit_guess (Some ''Poodle'') [] example_round = Inr out
         \<and> score (out_state out) = Some 0
         \<and> streak (out_state out) = Some 0
         \<and> round_over (out_state out) = Some False)"
proof -
  have l: "lower (strip ''Poodle'') \<noteq> lower (strip ''Beagle'')" by (simp add: strip_ex lower_ex)
  have a: "answer example_round = Some ''Beagle''" by (simp add: example_round_def)
  from wrong_guess [OF active_example(2) a _ l, of "[]"] l a active_example(2)
  show ?thesis by (auto simp: example_round_def)
qed

subsection \<open>C8: invariants of a round\<close>

text \<open>
  Claim C8. Along every sequence of hints, guesses and give-ups on a round, the clue
  counter never decreases and never exceeds 3, and \<open>round_over\<close>, once true, stays true.
  The statement compares any two points of the play: the state after a prefix and the
  state after the whole sequence. A round starts with its row and answer set and its
  counter at 1; from such a state no action fails.
\<close>

theorem round_invariants:
  assumes "row st \<noteq> None" and "answer st \<noteq> None" and "get_or (clue_index st) 0 \<le> 3"
  shows "\<exists>chat1 st1 chat2 st2.
           play acts1 (chat, st) = Inr (chat1, st1)
         \<and> play (acts1 @ acts2) (chat, st) = Inr (chat2, st2)
         \<and> get_or (clue_index st) 0 \<le> get_or (clue_index st1) 0
         \<and> get_or (clue_index st1) 0 \<le> get_or (clue_index st2) 0
         \<and> get_or (clue_index st2) 0 \<le> 3
         \<and> (round_over st = Some True \<longrightarrow> round_over st1 = Some True)
         \<and> (round_over st1 = Some True \<longrightarrow> round_over st2 = Some True)"
proof -
  from play_inv [OF assms(1,2), of acts1 chat] obtain chat1 st1 where
    p1: "play acts1 (chat, st) = Inr (chat1, st1)"
      "row st1 = row st" "answer st1 = answer st"
      "get_or (clue_index st) 0 \<le> get_or (clue_index st1) 0"
      "get_or (clue_index st) 0 \<le> 3 \<longrightarrow> get_or (clue_index st1) 0 \<le> 3"
      "round_over st = Some True \<longrightarrow> round_over st1 = Some True"
    by blast
  from assms p1 have "row st1 \<noteq> None" "answer st1 \<noteq> None" by simp_all
  from play_inv [OF this, of acts2 chat1] obtain chat2 st2 where
    p2: "play acts2 (chat1, st1) = Inr (chat2, st2)"
      "get_or (clue_index st1) 0 \<le> get_or (clue_index st2) 0"
      "get_or (clue_index st1) 0 \<le> 3 \<longrightarrow> get_or (clue_index st2) 0 \<le> 3"
      "round_over st1 = Some True \<longrightarrow> round_over st2 = Some True"
    by blast
  from p1 p2 have "play (acts1 @ acts2) (chat, st) = Inr (chat2, st2)"
    by (simp add: play_append)
  with p1 p2 assms(3) show ?thesis by auto
qed

theorem round_invariants_witness:
  "row example_round \<noteq> None \<and> answer example_round \<noteq> None
   \<and> get_or (clue_index example_round) 0 \<le> 3
   \<and> (\<exists>chat1 st1 chat2 st2.
         play [Hint] ([], example_round) = Inr (chat1, st1)
       \<and> play ([Hint] @ [GiveUp, Hint]) ([], example_round) = Inr (chat2, st2)
       \<and> get_or (clue_index example_round) 0 \<le> get_or (clue_index st1) 0
       \<and> get_or (clue_index st1) 0 \<le> get_or (clue_index st2) 0
       \<and> get_or (clue_index st2) 0 \<le> 3)"
proof -
  have h: "row example_round \<noteq> None" "answer example_round \<noteq> None"
    "get_or (clue_index example_round) 0 \<le> 3"
    by (simp_all add: example_round_def)
  from round_invariants [OF h, of "[Hint]" "[]" "[GiveUp, Hint]"] h
  show ?thesis by blast
qed

subsection \<open>C9: the fallback of the clue builder\<close>

text \<open>
  Claim C9. For a category that is none of the four, or a clue number outside 1, 2, 3,
  the clue builder returns one fixed sentinel string, whatever the row, and does not
  fail. The text of the sentinel is \<open>Clue information unavailable\<close>.
\<close>

theorem compose_sentinel:
  assumes "category st = Some cat" and "row st = Some r"
    and "cat \<notin> {''Dogs'', ''Cats'', ''Horses'', ''Dinosaurs''} \<or> n \<notin> {1, 2, 3}"
  shows "build_composite_clue st n = Inr ''Clue information unavailable''"
  using assms by (auto simp: build_composite_clue_def clue_unavailable_def)

theorem compose_sentinel_witness:
  "category example_round = Some ''Dogs''
   \<and> build_composite_clue example_round 4 = Inr ''Clue information unavailable''
   \<and> category (example_round\<lparr>category := Some ''Birds''\<rparr>) = Some ''Birds''
   \<and> build_composite_clue (example_round\<lparr>category := Some ''Birds''\<rparr>) 1
       = Inr ''Clue information unavailable''"
  using compose_sentinel [of example_round "''Dogs''" _ 4]
    compose_sentinel [of "example_round\<lparr>category := Some ''Birds''\<rparr>" "''Birds''" _ 1]
  by (simp add: example_round_def)

subsection \<open>C10: when a guess is accepted\<close>

text \<open>
  Claim C10 says that on every active round a selected string is accepted exactly when
  it equals the answer after trimming and lowercasing both. The handler asks for a
  choice when the selection is empty, before it compares: on the round of the example
  workbook whose answer is empty, the empty selection equals the answer after trimming
  and lowercasing and is not accepted.
\<close>

theorem empty_selection_counterexample:
  "map_sum id new_state (start_round example_workbook ''Dogs'' empty_state blank_draws)
     = Inr blank_round
   \<and> is_game_active blank_round
   \<and> answer blank_round = Some []
   \<and> lower (strip []) = lower (strip [])
   \<and> map_sum id (\<lambda>out. round_over (out_state out)) (submit_guess (Some []) [] blank_round)
       = Inr (Some False)"
  using start_blank_round active_blank blank_guess_prompt
  by (simp add: blank_round_def)

text \<open>
  Claim C10, amended. On an active round a selection is accepted as correct (the round
  ends) exactly when it equals the answer after trimming and lowercasing both, provided
  the selection is not empty or the answer of the round is not blank; in particular the
  answer surrounded by whitespace, when that is not the empty string, is accepted.
\<close>

theorem guess_accepted_iff:
  assumes "is_game_active st" and "answer st = Some a" and "s \<noteq> [] \<or> strip a \<noteq> []"
  shows "(\<exists>out. submit_guess (Some s) chat st = Inr out
            \<and> (round_over (out_state out) = Some True
                 \<longleftrightarrow> lower (strip s) = lower (strip a)))
       \<and> (\<forall>ws1 ws2. (\<forall>c\<in>set ws1. is_space c) \<and> (\<forall>c\<in>set ws2. is_space c)
                      \<and> ws1 @ a @ ws2 \<noteq> []
            \<longrightarrow> (\<exists>out. submit_guess (Some (ws1 @ a @ ws2)) chat st = Inr out
                   \<and> round_over (out_state out) = Some True))"
proof (intro conjI allI impI)
  from assms(1) have ro: "round_over st \<noteq> Some True" by (simp add: active_iff)
  show "\<exists>out. submit_guess (Some s) chat st = Inr out
            \<and> (round_over (out_state out) = Some True
                 \<longleftrightarrow> lower (strip s) = lower (strip a))"
  proof (cases "s = []")
    case True
    with assms(3) have "strip a \<noteq> []" by simp
    then have "lower (strip s) \<noteq> lower (strip a)"
      using True by (simp add: strip_def lower_def)
    with True assms(1) ro show ?thesis by (simp add: submit_guess_def)
  next
    case False
    with assms(1,2) ro show ?thesis
      by (simp add: submit_guess_def safe_str_def get_or_def Let_def)
  qed
next
  fix ws1 ws2
  assume h: "(\<forall>c\<in>set ws1. is_space c) \<and> (\<forall>c\<in>set ws2. is_space c) \<and> ws1 @ a @ ws2 \<noteq> []"
  then have "strip (ws1 @ a @ ws2) = strip a" by (simp add: strip_padded)
  moreover from h have "Some (ws1 @ a @ ws2) \<noteq> Some []" by simp
  ultimately show "\<exists>out. submit_guess (Some (ws1 @ a @ ws2)) chat st = Inr out
                   \<and> round_over (out_state out) = Some True"
    using assms(1,2) by (simp only: submit_guess_def safe_str_def Let_def) simp
qed

theorem guess_accepted_iff_witness:
  "is_game_active example_round \<and> answer example_round = Some ''Beagle''
   \<and> (\<exists>out. submit_guess (Some '' beagle '') [] example_round = Inr out
         \<and> round_over (out_state out) = Some True)
   \<and> (\<exists>out. submit_guess (Some ''Poodle'') [] example_round = Inr out
         \<and> round_over (out_state out) \<noteq> Some True)"
proof -
  have a: "answer example_round = Some ''Beagle''" by (simp add: example_round_def)
  have s: "lower (strip '' beagle '') = lower (strip ''Beagle'')"
    by (simp add: strip_def is_space_def whitespace_def lower_def lower_char_def)
  have p: "lower (strip ''Poodle'') \<noteq> lower (strip ''Beagle'')" by (simp add: strip_ex lower_ex)
  from guess_accepted_iff [OF active_example(2) a, of "'' beagle ''" "[]"] s
  have 1: "\<exists>out. submit_guess (Some '' beagle '') [] example_round = Inr out
         \<and> round_over (out_state out) = Some True" by auto
  from guess_accepted_iff [OF active_example(2) a, of "''Poodle''" "[]"] p
  have 2: "\<exists>out. submit_guess (Some ''Poodle'') [] example_round = Inr out
         \<and> round_over (out_state out) \<noteq> Some True" by auto
  from 1 2 a active_example(2) show ?thesis by blast
qed

end
